theory Spec2Isabelle
  imports Main
begin

section \<open>Values held in a roster row\<close>

text \<open>
  A roster row (\<^verbatim>\<open>table_record: Dict[str, Any]\<close>) maps a column key to a cell.
  The cells the roster holds are strings, integers and booleans. A \<open>string\<close> is a
  list of characters, each standing for one code point below 256.
\<close>

datatype cell = CStr string | CInt int | CBool bool

subsection \<open>Python's \<^verbatim>\<open>str\<close>, \<^verbatim>\<open>str.strip\<close> and \<^verbatim>\<open>int\<close>\<close>

definition digit_char :: "nat \<Rightarrow> char" where
  "digit_char d = char_of (48 + d)"

function show_nat :: "nat \<Rightarrow> string" where
  "show_nat n = (if n < 10 then [digit_char n] else show_nat (n div 10) @ [digit_char (n mod 10)])"
  by pat_completeness auto
termination
  by (relation "measure id") auto

declare show_nat.simps [simp del]

text \<open>\<^verbatim>\<open>str(i)\<close> for an integer: the decimal digits, with a minus sign below zero.\<close>

definition py_str_int :: "int \<Rightarrow> string" where
  "py_str_int i = (if i < 0 then CHR ''-'' # show_nat (nat (- i)) else show_nat (nat i))"

text \<open>\<^verbatim>\<open>str(v)\<close> for a cell value.\<close>

fun py_str :: "cell \<Rightarrow> string" where
  "py_str (CStr s) = s"
| "py_str (CInt i) = py_str_int i"
| "py_str (CBool b) = (if b then ''True'' else ''False'')"

text \<open>
  \<^verbatim>\<open>str.isspace\<close> on a code point below 256: the characters 9 to 13, 28 to 32,
  133 and 160.
\<close>

definition is_space :: "char \<Rightarrow> bool" where
  "is_space c = (let n = (of_char c :: nat) in
     (9 \<le> n \<and> n \<le> 13) \<or> (28 \<le> n \<and> n \<le> 32) \<or> n = 133 \<or> n = 160)"

text \<open>\<^verbatim>\<open>s.strip()\<close>: whitespace removed at both ends.\<close>

definition strip :: "string \<Rightarrow> string" where
  "strip s = rev (dropWhile is_space (rev (dropWhile is_space s)))"

definition is_digit :: "char \<Rightarrow> bool" where
  "is_digit c = (let n = (of_char c :: nat) in 48 \<le> n \<and> n \<le> 57)"

definition digit_of :: "char \<Rightarrow> nat" where
  "digit_of c = of_char c - 48"

text \<open>
  The digits of a decimal literal after its first digit: more digits, each optionally
  preceded by one underscore. The accumulator is the value read so far.
\<close>

fun digits_value :: "nat \<Rightarrow> string \<Rightarrow> nat option" where
  "digits_value acc [] = Some acc"
| "digits_value acc (c # cs) =
     (if is_digit c then digits_value (10 * acc + digit_of c) cs
      else if c = CHR ''_'' then
        (case cs of
           [] \<Rightarrow> None
         | d # ds \<Rightarrow> if is_digit d then digits_value (10 * acc + digit_of d) ds else None)
      else None)"

definition parse_nat :: "string \<Rightarrow> nat option" where
  "parse_nat s = (case s of
       [] \<Rightarrow> None
     | c # cs \<Rightarrow> if is_digit c then digits_value (digit_of c) cs else None)"

text \<open>
  \<^verbatim>\<open>int(s)\<close> on a string with no whitespace at either end: an optional sign and a
  decimal literal. \<open>None\<close> stands for the \<^verbatim>\<open>ValueError\<close> that Python raises.
  The interpreter's limit on the number of digits of a conversion is not modelled.
\<close>

definition py_int :: "string \<Rightarrow> int option" where
  "py_int s = (case s of
       [] \<Rightarrow> None
     | c # cs \<Rightarrow>
         if c = CHR ''-'' then map_option (\<lambda>n. - int n) (parse_nat cs)
         else if c = CHR ''+'' then map_option int (parse_nat cs)
         else map_option int (parse_nat s))"

section \<open>The student record (record.py)\<close>

datatype py_exception = KeyError string | ValueError string | AttributeError string

datatype error =
    StudentRecordError string "string \<Rightarrow> cell option" int py_exception
  | Uncaught py_exception
  | KnownError string

record student_record =
  table_record :: "string \<Rightarrow> cell option"
  table_index :: int
  write_queue :: "(string \<times> cell) list"

text \<open>
  \<^verbatim>\<open>StudentRecord.get_assignment\<close>. Every exception raised inside the \<^verbatim>\<open>try\<close>
  block (the missing key, the failed \<^verbatim>\<open>int\<close>) is re-raised as a
  \<^verbatim>\<open>StudentRecordError\<close> that carries the assignment id, the row, its index and the
  cause.
\<close>

definition get_assignment :: "student_record \<Rightarrow> string \<Rightarrow> error + int option" where
  "get_assignment r assignment_id =
     (case table_record r assignment_id of
        None \<Rightarrow>
          Inl (StudentRecordError assignment_id (table_record r) (table_index r)
                 (KeyError assignment_id))
      | Some v \<Rightarrow>
          (let result = strip (py_str v) in
           if length result > 0 then
             (case py_int result of
                Some n \<Rightarrow> Inr (Some n)
              | None \<Rightarrow>
                  Inl (StudentRecordError assignment_id (table_record r) (table_index r)
                         (ValueError result)))
           else Inr None))"

text \<open>
  \<^verbatim>\<open>StudentRecord.has_existing_request\<close>: the truth value of what
  \<^verbatim>\<open>get_assignment\<close> returns (\<^verbatim>\<open>None\<close> and \<^verbatim>\<open>0\<close> are both false).
\<close>

definition has_existing_request :: "student_record \<Rightarrow> string \<Rightarrow> error + bool" where
  "has_existing_request r assignment_id =
     (case get_assignment r assignment_id of
        Inl e \<Rightarrow> Inl e
      | Inr v \<Rightarrow> Inr (case v of None \<Rightarrow> False | Some n \<Rightarrow> n \<noteq> 0))"

text \<open>\<^verbatim>\<open>StudentRecord.is_dsp\<close> and \<^verbatim>\<open>StudentRecord.approval_status\<close>: a plain
  dictionary read, whose \<^verbatim>\<open>KeyError\<close> is not caught.\<close>

definition is_dsp :: "student_record \<Rightarrow> error + cell" where
  "is_dsp r = (case table_record r ''is_dsp'' of
       None \<Rightarrow> Inl (Uncaught (KeyError ''is_dsp''))
     | Some v \<Rightarrow> Inr v)"

definition approval_status :: "student_record \<Rightarrow> error + cell" where
  "approval_status r = (case table_record r ''approval_status'' of
       None \<Rightarrow> Inl (Uncaught (KeyError ''approval_status''))
     | Some v \<Rightarrow> Inr v)"

text \<open>\<^verbatim>\<open>StudentRecord.queue_write_back\<close>: append to the queue, nothing else.\<close>

definition queue_write_back :: "student_record \<Rightarrow> string \<Rightarrow> cell \<Rightarrow> student_record" where
  "queue_write_back r col_key col_value =
     r\<lparr>write_queue := write_queue r @ [(col_key, col_value)]\<rparr>"

subsection \<open>The roster sheet\<close>

text \<open>
  The \<^verbatim>\<open>Sheet\<close> class is not among the sources. The record below keeps what
  \<^verbatim>\<open>dispatch_writes\<close> uses of it: the header row that \<^verbatim>\<open>get_headers\<close>
  returns, and the calls of \<^verbatim>\<open>update_cell\<close> (row, column, value) in the order
  they were made.
\<close>

record sheet =
  get_headers :: "string list"
  cell_updates :: "(int \<times> int \<times> cell) list"

definition update_cell :: "sheet \<Rightarrow> int \<Rightarrow> int \<Rightarrow> cell \<Rightarrow> sheet" where
  \<comment> \<open>Modelled from the spec: \<^verbatim>\<open>Sheet.update_cell\<close> is missing from the sources;
      section 6 gives it as \<^verbatim>\<open>writeCell(rowPosition, colIndex, value)\<close>, one write
      to the backing store.\<close>
  "update_cell sh row_index col_index v =
     sh\<lparr>cell_updates := cell_updates sh @ [(row_index, col_index, v)]\<rparr>"

text \<open>\<^verbatim>\<open>list.index\<close>: the first position of the element, \<open>None\<close> for the
  \<^verbatim>\<open>ValueError\<close> raised when it is absent.\<close>

fun list_index :: "'a list \<Rightarrow> 'a \<Rightarrow> nat option" where
  "list_index [] x = None"
| "list_index (y # ys) x = (if y = x then Some 0 else map_option Suc (list_index ys x))"

text \<open>
  The loop of \<^verbatim>\<open>StudentRecord.dispatch_writes\<close> over the write queue. Each round
  finds the column, writes the cell to the sheet and then stores the value in the row. An
  exception ends the evaluation: the model returns the error alone.
\<close>

fun dispatch_loop ::
  "string list \<Rightarrow> (string \<times> cell) list \<Rightarrow> sheet \<times> student_record \<Rightarrow> error + sheet \<times> student_record"
where
  "dispatch_loop hs [] (sh, r) = Inr (sh, r)"
| "dispatch_loop hs ((col_key, v) # ws) (sh, r) =
     (case list_index hs col_key of
        None \<Rightarrow> Inl (Uncaught (ValueError col_key))
      | Some col_index \<Rightarrow>
          dispatch_loop hs ws
            (update_cell sh (table_index r) (int col_index) v,
             r\<lparr>table_record := (table_record r)(col_key \<mapsto> v)\<rparr>))"

definition dispatch_writes :: "sheet \<Rightarrow> student_record \<Rightarrow> error + sheet \<times> student_record" where
  "dispatch_writes sh r = dispatch_loop (get_headers sh) (write_queue r) (sh, r)"

subsection \<open>Methods of the record that the policy calls and the sources lack\<close>

definition get_request :: "student_record \<Rightarrow> string \<Rightarrow> error + int option" where
  \<comment> \<open>Modelled from the spec: \<^verbatim>\<open>StudentRecord.get_request\<close> is missing from the
      sources; section 4.1 describes the lookup of the already granted length
      (\<^verbatim>\<open>getExisting\<close>), which is what \<^verbatim>\<open>get_assignment\<close> of record.py does.\<close>
  "get_request r assignment_id = get_assignment r assignment_id"

definition flush :: "sheet \<Rightarrow> student_record \<Rightarrow> error + sheet \<times> student_record" where
  \<comment> \<open>Modelled from the spec: \<^verbatim>\<open>StudentRecord.flush\<close> is missing from the sources;
      section 4.1 describes it as committing every queued write in queue order and then
      updating the cached column, which is what \<^verbatim>\<open>dispatch_writes\<close> of record.py
      does.\<close>
  "flush sh r = dispatch_writes sh r"

definition APPROVAL_STATUS_REQUESTED_MEETING :: string where
  "APPROVAL_STATUS_REQUESTED_MEETING = ''Requested Meeting''"

definition APPROVAL_STATUS_PENDING :: string where
  "APPROVAL_STATUS_PENDING = ''Pending''"

definition APPROVAL_STATUS_AUTO_APPROVED :: string where
  "APPROVAL_STATUS_AUTO_APPROVED = ''Auto Approved''"

definition APPROVAL_STATUS_MANUAL_APPROVED :: string where
  "APPROVAL_STATUS_MANUAL_APPROVED = ''Manually Approved''"

definition set_status :: "string \<Rightarrow> student_record \<Rightarrow> student_record" where
  \<comment> \<open>Modelled from the spec: the status setters of \<^verbatim>\<open>StudentRecord\<close> are missing
      from the sources; section 4.2 says of them only that they set the status of the
      record, and of the meeting request that no write is queued. The status is the
      \<^verbatim>\<open>approval_status\<close> entry of the row, which the readers of record.py use.\<close>
  "set_status s r = r\<lparr>table_record := (table_record r)(''approval_status'' \<mapsto> CStr s)\<rparr>"

definition set_status_requested_meeting :: "student_record \<Rightarrow> student_record" where
  \<comment> \<open>Modelled from the spec: missing from the sources, see \<open>set_status\<close>.\<close>
  "set_status_requested_meeting = set_status APPROVAL_STATUS_REQUESTED_MEETING"

definition set_status_pending :: "student_record \<Rightarrow> student_record" where
  \<comment> \<open>Modelled from the spec: missing from the sources, see \<open>set_status\<close>.\<close>
  "set_status_pending = set_status APPROVAL_STATUS_PENDING"

definition set_status_approved :: "student_record \<Rightarrow> student_record" where
  \<comment> \<open>Modelled from the spec: missing from the sources, see \<open>set_status\<close>.\<close>
  "set_status_approved = set_status APPROVAL_STATUS_AUTO_APPROVED"

definition has_wip_status :: "student_record \<Rightarrow> error + bool" where
  \<comment> \<open>Modelled from the spec: \<^verbatim>\<open>StudentRecord.has_wip_status\<close> is missing from the
      sources; the glossary defines work in progress as any status other than a clean
      baseline or an approval.\<close>
  "has_wip_status r =
     (case approval_status r of
        Inl e \<Rightarrow> Inl e
      | Inr v \<Rightarrow>
          Inr (strip (py_str v) \<notin>
                 {[], APPROVAL_STATUS_AUTO_APPROVED, APPROVAL_STATUS_MANUAL_APPROVED}))"

section \<open>The policy (policy.py)\<close>

subsection \<open>What the policy consumes\<close>

text \<open>
  The classes \<^verbatim>\<open>Assignment\<close>, \<^verbatim>\<open>FormSubmission\<close>, \<^verbatim>\<open>Environment\<close>,
  \<^verbatim>\<open>SlackManager\<close> and \<^verbatim>\<open>Email\<close> are not among the sources. The policy only
  reads the first three, so they are records of what their methods return; each field has
  the name of the method. \<^verbatim>\<open>is_past_due\<close> is kept as the answer of the method for
  each request time.
\<close>

record assignment =
  get_id :: string
  get_name :: string
  is_partner_assignment :: bool
  is_past_due :: "int \<Rightarrow> bool"

record submission =
  knows_assignments :: bool
  claims_dsp :: bool
  dsp_status :: string
  get_email :: string
  has_partner :: bool
  get_timestamp :: int
  get_num_requests :: int
  get_requests :: "(assignment \<times> int) list"

record environment =
  get_auto_approve_threshold :: int
  get_auto_approve_threshold_dsp :: int
  get_auto_approve_assignment_threshold :: int

text \<open>
  The Slack manager and the mailer only receive calls. The state of the policy keeps the
  calls made to the Slack manager in order, and the records for which an email was sent.
  Both records live on the same sheet.
\<close>

datatype slack_call = Suppress | SendStudentUpdate string bool | AddWarning string

record policy =
  student :: student_record
  partner :: "student_record option"
  records_sheet :: sheet
  slack :: "slack_call list"
  emails :: "student_record list"

definition add_warning :: "string \<Rightarrow> policy \<Rightarrow> policy" where
  "add_warning message p = p\<lparr>slack := slack p @ [AddWarning message]\<rparr>"

definition send_student_update :: "string \<Rightarrow> bool \<Rightarrow> policy \<Rightarrow> policy" where
  "send_student_update message autoapprove p =
     p\<lparr>slack := slack p @ [SendStudentUpdate message autoapprove]\<rparr>"

text \<open>The truth value of an \<^verbatim>\<open>Optional[str]\<close>: false for \<^verbatim>\<open>None\<close> and for the
  empty string.\<close>

fun truthy_str :: "string option \<Rightarrow> bool" where
  "truthy_str None = False"
| "truthy_str (Some s) = (s \<noteq> [])"

text \<open>The truth value of a cell.\<close>

fun truthy :: "cell \<Rightarrow> bool" where
  "truthy (CStr s) = (s \<noteq> [])"
| "truthy (CInt i) = (i \<noteq> 0)"
| "truthy (CBool b) = b"

subsection \<open>\<^verbatim>\<open>Policy.process_submission\<close>\<close>

text \<open>
  The chain of flag cases in the body of the loop (lines 144 to 157), as the new value of
  \<^verbatim>\<open>needs_human\<close>: the variable keeps its value when no case applies.
\<close>

definition flag_cases ::
  "environment \<Rightarrow> submission \<Rightarrow> assignment \<Rightarrow> int \<Rightarrow> string option \<Rightarrow> string option"
where
  "flag_cases env sub a num_days needs_human =
     (if \<not> claims_dsp sub \<and> num_days > get_auto_approve_threshold env then
        (if get_auto_approve_threshold env \<le> 0 then Some ''auto-approve is disabled''
         else Some (''a request of '' @ py_str_int num_days
                @ '' days is greater than auto-approve threshold of ''
                @ py_str_int (get_auto_approve_threshold env) @ '' days''))
      else if claims_dsp sub \<and> num_days > get_auto_approve_threshold_dsp env then
        Some (''a DSP request of '' @ py_str_int num_days
              @ '' days is greater than DSP auto-approve threshold'')
      else if is_past_due a (get_timestamp sub) then
        Some ''student requested a retroactive extension on an assignment''
      else needs_human)"

text \<open>
  One round of the loop (lines 131 to 165) for the pair \<open>(a, num_days)\<close>. The state
  is the variable \<^verbatim>\<open>needs_human\<close> and the policy.
\<close>

definition process_request ::
  "environment \<Rightarrow> submission \<Rightarrow> assignment \<times> int \<Rightarrow> string option \<times> policy
     \<Rightarrow> error + string option \<times> policy"
where
  "process_request env sub req st =
     (case req of (a, num_days) \<Rightarrow>
      case st of (needs_human, p) \<Rightarrow>
      case get_request (student p) (get_id a) of
        Inl e \<Rightarrow> Inl e
      | Inr existing_request \<Rightarrow>
          (let (p1, num_days1) =
                 (case existing_request of
                    None \<Rightarrow> (p, num_days)
                  | Some existing \<Rightarrow>
                      if existing \<noteq> 0 \<and> num_days \<le> existing then
                        (add_warning
                           (''['' @ get_name a @ ''] student requested an extension for ''
                            @ py_str_int num_days
                            @ '' days, which was <= an existing request of ''
                            @ py_str_int existing
                            @ '' days, so we kept the existing request in-place.'') p,
                         existing)
                      else (p, num_days));
               needs_human1 = flag_cases env sub a num_days1 needs_human;
               p2 = p1\<lparr>student := queue_write_back (student p1) (get_id a) (CInt num_days1)\<rparr>;
               p3 = (if is_partner_assignment a then
                       (case partner p2 of
                          None \<Rightarrow> p2
                        | Some pt \<Rightarrow>
                            p2\<lparr>partner := Some (queue_write_back pt (get_id a) (CInt num_days1))\<rparr>)
                     else p2)
           in Inr (needs_human1, p3)))"

text \<open>The loop over the requests of the submission, in their order.\<close>

fun process_requests ::
  "environment \<Rightarrow> submission \<Rightarrow> (assignment \<times> int) list \<Rightarrow> string option \<times> policy
     \<Rightarrow> error + string option \<times> policy"
where
  "process_requests env sub [] st = Inr st"
| "process_requests env sub (req # reqs) st =
     (case process_request env sub req st of
        Inl e \<Rightarrow> Inl e
      | Inr st1 \<Rightarrow> process_requests env sub reqs st1)"

text \<open>The check made once before the loop (lines 123 to 128). Only the first half of the
  message is an f-string.\<close>

definition too_many_requests :: "environment \<Rightarrow> submission \<Rightarrow> string option" where
  "too_many_requests env sub =
     (if \<not> claims_dsp sub \<and> get_num_requests sub > get_auto_approve_assignment_threshold env
      then Some (''this student has requested more assignment extensions (''
             @ py_str_int (get_num_requests sub) @ '') than the ''
             @ ''auto-approve threshold ({Environment.get_auto_approve_assignment_threshold()})'')
      else None)"

text \<open>What follows the loop (lines 167 to 173): both records become pending and are
  flushed when a reason is set.\<close>

definition mark_pending :: "policy \<Rightarrow> error + policy" where
  "mark_pending p =
     (case flush (records_sheet p) (set_status_pending (student p)) of
        Inl e \<Rightarrow> Inl e
      | Inr (sh1, s1) \<Rightarrow>
          (case partner p of
             None \<Rightarrow> Inr (p\<lparr>student := s1, records_sheet := sh1\<rparr>)
           | Some pt \<Rightarrow>
               (case flush sh1 (set_status_pending pt) of
                  Inl e \<Rightarrow> Inl e
                | Inr (sh2, pt1) \<Rightarrow>
                    Inr (p\<lparr>student := s1, partner := Some pt1, records_sheet := sh2\<rparr>))))"

definition process_submission ::
  "environment \<Rightarrow> submission \<Rightarrow> policy \<Rightarrow> error + string option \<times> policy"
where
  "process_submission env sub p =
     (case process_requests env sub (get_requests sub) (too_many_requests env sub, p) of
        Inl e \<Rightarrow> Inl e
      | Inr (needs_human, p1) \<Rightarrow>
          if truthy_str needs_human then
            (case mark_pending p1 of
               Inl e \<Rightarrow> Inl e
             | Inr p2 \<Rightarrow> Inr (needs_human, p2))
          else Inr (needs_human, p1))"

subsection \<open>\<^verbatim>\<open>Policy.check_work_in_progress\<close>\<close>

text \<open>
  The three cases, in the order of the source. The conditions are evaluated left to right,
  so the status of a record is read only when the condition reaches it. A method called
  on an absent partner raises an \<^verbatim>\<open>AttributeError\<close>.
\<close>

definition blocked_on_student :: "policy \<Rightarrow> error + string option \<times> policy" where
  "blocked_on_student p =
     (case flush (records_sheet p) (student p) of
        Inl e \<Rightarrow> Inl e
      | Inr (sh1, s1) \<Rightarrow>
          (case partner p of
             None \<Rightarrow> Inl (Uncaught (AttributeError ''set_status_pending''))
           | Some pt \<Rightarrow>
               (case flush sh1 (set_status_pending pt) of
                  Inl e \<Rightarrow> Inl e
                | Inr (sh2, pt1) \<Rightarrow>
                    Inr (Some ''An extension request needs review (there is work-in-progress for this student's record).'',
                         p\<lparr>student := s1, partner := Some pt1, records_sheet := sh2\<rparr>))))"

definition blocked_on_partner :: "student_record \<Rightarrow> policy \<Rightarrow> error + string option \<times> policy" where
  "blocked_on_partner pt p =
     (case flush (records_sheet p) pt of
        Inl e \<Rightarrow> Inl e
      | Inr (sh1, pt1) \<Rightarrow>
          (case flush sh1 (set_status_pending (student p)) of
             Inl e \<Rightarrow> Inl e
           | Inr (sh2, s1) \<Rightarrow>
               Inr (Some ''An extension request needs review (there is work-in-progress for this student's partner).'',
                    p\<lparr>student := s1, partner := Some pt1, records_sheet := sh2\<rparr>)))"

definition blocked_alone :: "policy \<Rightarrow> error + string option \<times> policy" where
  "blocked_alone p =
     (case has_wip_status (student p) of
        Inl e \<Rightarrow> Inl e
      | Inr wip \<Rightarrow>
          if wip then
            (case flush (records_sheet p) (student p) of
               Inl e \<Rightarrow> Inl e
             | Inr (sh1, s1) \<Rightarrow>
                 Inr (Some ''An extension request needs review (there is work in progress for this student's record).'',
                      p\<lparr>student := s1, records_sheet := sh1\<rparr>))
          else Inr (None, p))"

definition check_work_in_progress :: "submission \<Rightarrow> policy \<Rightarrow> error + string option \<times> policy" where
  "check_work_in_progress sub p =
     (if has_partner sub then
        (case has_wip_status (student p) of
           Inl e \<Rightarrow> Inl e
         | Inr wip \<Rightarrow>
             if wip then blocked_on_student p
             else
               (case partner p of
                  None \<Rightarrow> Inl (Uncaught (AttributeError ''has_wip_status''))
                | Some pt \<Rightarrow>
                    (case has_wip_status pt of
                       Inl e \<Rightarrow> Inl e
                     | Inr pwip \<Rightarrow>
                         if pwip then blocked_on_partner pt p else blocked_alone p)))
      else blocked_alone p)"

subsection \<open>\<^verbatim>\<open>Policy.check_for_warnings\<close>, \<^verbatim>\<open>approve\<close> and \<^verbatim>\<open>send_email\<close>\<close>

definition dsp_warning :: "submission \<Rightarrow> string" where
  "dsp_warning sub =
     ''Student '' @ get_email sub @ '' responded '' @ [CHR 0x27] @ dsp_status sub @ [CHR 0x27]
     @ '' to ''
     @ ''DSP question in extension request, but is not marked for DSP approval on the roster. ''
     @ ''Please investigate!''"

definition check_for_warnings :: "submission \<Rightarrow> policy \<Rightarrow> error + policy" where
  "check_for_warnings sub p =
     (if claims_dsp sub then
        (case is_dsp (student p) of
           Inl e \<Rightarrow> Inl e
         | Inr v \<Rightarrow> if \<not> truthy v then Inr (add_warning (dsp_warning sub) p) else Inr p)
      else Inr p)"

definition approve :: "policy \<Rightarrow> error + policy" where
  "approve p =
     (case flush (records_sheet p) (set_status_approved (student p)) of
        Inl e \<Rightarrow> Inl e
      | Inr (sh1, s1) \<Rightarrow>
          (case partner p of
             None \<Rightarrow>
               Inr (send_student_update ''An extension request was automatically approved!'' True
                      (p\<lparr>student := s1, records_sheet := sh1\<rparr>))
           | Some pt \<Rightarrow>
               (case flush sh1 (set_status_approved pt) of
                  Inl e \<Rightarrow> Inl e
                | Inr (sh2, pt1) \<Rightarrow>
                    Inr (send_student_update
                           ''An extension request was automatically approved (for a partner, too!)'' True
                           (p\<lparr>student := s1, partner := Some pt1, records_sheet := sh2\<rparr>)))))"

text \<open>
  The mailer is a parameter: for a record it answers \<open>None\<close> when the email was built
  and sent, and the text of the exception otherwise, which \<^verbatim>\<open>send_email\<close> raises
  again as a \<^verbatim>\<open>KnownError\<close>.
\<close>

definition send_email ::
  "(student_record \<Rightarrow> string option) \<Rightarrow> student_record \<Rightarrow> policy \<Rightarrow> error + policy"
where
  "send_email mailer target p =
     (case mailer target of
        Some err \<Rightarrow>
          Inl (KnownError
                 (''Writes to spreadsheet succeed, but email to student failed.'' @ [CHR 0x0A]
                  @ ''Please follow up with this student manually and/or check email logs.''
                  @ [CHR 0x0A] @ ''Error: '' @ err))
      | None \<Rightarrow> Inr (p\<lparr>emails := emails p @ [target]\<rparr>))"

subsection \<open>\<^verbatim>\<open>Policy.apply\<close>\<close>

text \<open>Step 6 of \<^verbatim>\<open>apply\<close>: the email to the student, then to the partner if there is
  one.\<close>

definition send_emails :: "(student_record \<Rightarrow> string option) \<Rightarrow> policy \<Rightarrow> error + policy" where
  "send_emails mailer p =
     (case send_email mailer (student p) p of
        Inl e \<Rightarrow> Inl e
      | Inr p1 \<Rightarrow>
          (case partner p1 of
             None \<Rightarrow> Inr p1
           | Some pt \<Rightarrow> send_email mailer pt p1))"

text \<open>Steps 4 to 6 of \<^verbatim>\<open>apply\<close>, reached when no check asked for a human.\<close>

definition approve_and_notify ::
  "submission \<Rightarrow> (student_record \<Rightarrow> string option) \<Rightarrow> bool \<Rightarrow> policy \<Rightarrow> error + policy"
where
  "approve_and_notify sub mailer silent p =
     (case check_for_warnings sub p of
        Inl e \<Rightarrow> Inl e
      | Inr p1 \<Rightarrow>
          (case approve p1 of
             Inl e \<Rightarrow> Inl e
           | Inr p2 \<Rightarrow> if \<not> silent then send_emails mailer p2 else Inr p2))"

definition apply_policy ::
  "environment \<Rightarrow> submission \<Rightarrow> (student_record \<Rightarrow> string option) \<Rightarrow> bool \<Rightarrow> policy
     \<Rightarrow> error + policy"
where
  "apply_policy env sub mailer silent p0 =
     (let p = (if silent then p0\<lparr>slack := slack p0 @ [Suppress]\<rparr> else p0) in
      if \<not> knows_assignments sub then
        Inr (send_student_update ''A student requested a student support meeting.'' False
               (p\<lparr>student := set_status_requested_meeting (student p)\<rparr>))
      else
        (case process_submission env sub p of
           Inl e \<Rightarrow> Inl e
         | Inr (needs_human, p1) \<Rightarrow>
             if truthy_str needs_human then
               Inr (send_student_update
                      (''An extension request needs review ('' @ the needs_human @ '').'')
                      False p1)
             else
               (case check_work_in_progress sub p1 of
                  Inl e \<Rightarrow> Inl e
                | Inr (work_in_progress, p2) \<Rightarrow>
                    if truthy_str work_in_progress then
                      Inr (send_student_update (the work_in_progress) False p2)
                    else approve_and_notify sub mailer silent p2)))"

section \<open>Notions used to state the properties of the loop\<close>

text \<open>
  The number of days one round of the loop goes on with after lines 137 to 142: the
  existing request when there is one, it is not 0, and the new request does not exceed
  it; the requested number otherwise.
\<close>

definition effective_days :: "student_record \<Rightarrow> assignment \<times> int \<Rightarrow> int" where
  "effective_days r req =
     (case get_request r (get_id (fst req)) of
        Inr (Some existing) \<Rightarrow>
          if existing \<noteq> 0 \<and> snd req \<le> existing then existing else snd req
      | _ \<Rightarrow> snd req)"

text \<open>The reason a pair sets when no reason was set before it, \<open>None\<close> when it sets
  none.\<close>

definition pair_reason ::
  "environment \<Rightarrow> submission \<Rightarrow> student_record \<Rightarrow> assignment \<times> int \<Rightarrow> string option"
where
  "pair_reason env sub r req = flag_cases env sub (fst req) (effective_days r req) None"

section \<open>Example rows, sheets and submissions\<close>

definition roster_sheet :: sheet where
  "roster_sheet =
     \<lparr>get_headers = [''email'', ''approval_status'', ''is_dsp'', ''hw1'', ''proj1''],
      cell_updates = []\<rparr>"

definition alice :: student_record where
  "alice =
     \<lparr>table_record =
        [''email'' \<mapsto> CStr ''alice@berkeley.edu'', ''approval_status'' \<mapsto> CStr [],
         ''is_dsp'' \<mapsto> CBool False, ''hw1'' \<mapsto> CStr '' '', ''proj1'' \<mapsto> CInt 4,
         ''lab1'' \<mapsto> CStr ''n/a'', ''lab2'' \<mapsto> CStr ''12 ''],
      table_index = 2, write_queue = []\<rparr>"

definition bob :: student_record where
  "bob =
     \<lparr>table_record =
        [''email'' \<mapsto> CStr ''bob@berkeley.edu'', ''approval_status'' \<mapsto> CStr [],
         ''is_dsp'' \<mapsto> CBool True, ''hw1'' \<mapsto> CInt 0, ''proj1'' \<mapsto> CStr ''2''],
      table_index = 5,
      write_queue = [(''hw1'', CInt 3), (''proj1'', CInt 5), (''hw1'', CInt 4)]\<rparr>"

definition never_past_due :: "int \<Rightarrow> bool" where
  "never_past_due request_time = False"

definition hw1 :: assignment where
  "hw1 = \<lparr>get_id = ''hw1'', get_name = ''Homework 1'', is_partner_assignment = False,
           is_past_due = never_past_due\<rparr>"

definition proj1 :: assignment where
  "proj1 = \<lparr>get_id = ''proj1'', get_name = ''Project 1'', is_partner_assignment = True,
             is_past_due = never_past_due\<rparr>"

definition course_env :: environment where
  "course_env = \<lparr>get_auto_approve_threshold = 5, get_auto_approve_threshold_dsp = 7,
                  get_auto_approve_assignment_threshold = 1\<rparr>"

definition closed_env :: environment where
  "closed_env = \<lparr>get_auto_approve_threshold = 0, get_auto_approve_threshold_dsp = 7,
                  get_auto_approve_assignment_threshold = 1\<rparr>"

definition request_form :: "bool \<Rightarrow> (assignment \<times> int) list \<Rightarrow> submission" where
  "request_form dsp reqs =
     \<lparr>knows_assignments = True, claims_dsp = dsp,
      dsp_status = (if dsp then ''Yes'' else ''No''),
      get_email = ''alice@berkeley.edu'', has_partner = False, get_timestamp = 50,
      get_num_requests = int (length reqs), get_requests = reqs\<rparr>"

definition solo :: "student_record \<Rightarrow> policy" where
  "solo r = \<lparr>student = r, partner = None, records_sheet = roster_sheet, slack = [],
             emails = []\<rparr>"

definition meeting_form :: submission where
  "meeting_form =
     \<lparr>knows_assignments = False, claims_dsp = False, dsp_status = ''No'',
      get_email = ''alice@berkeley.edu'', has_partner = False, get_timestamp = 50,
      get_num_requests = 0, get_requests = []\<rparr>"

definition working_mailer :: "student_record \<Rightarrow> string option" where
  "working_mailer target = None"

definition failing_mailer :: "student_record \<Rightarrow> string option" where
  "failing_mailer target = Some ''connection refused''"

definition carol :: student_record where
  "carol =
     \<lparr>table_record =
        [''email'' \<mapsto> CStr ''carol@berkeley.edu'', ''approval_status'' \<mapsto> CStr [],
         ''is_dsp'' \<mapsto> CBool True, ''hw1'' \<mapsto> CStr [], ''proj1'' \<mapsto> CStr []],
      table_index = 7, write_queue = []\<rparr>"

definition partner_form :: "(assignment \<times> int) list \<Rightarrow> submission" where
  "partner_form reqs = (request_form False reqs)\<lparr>has_partner := True\<rparr>"

definition dave :: student_record where
  "dave =
     \<lparr>table_record =
        [''email'' \<mapsto> CStr ''dave@berkeley.edu'', ''approval_status'' \<mapsto> CStr [],
         ''is_dsp'' \<mapsto> CBool False, ''hw1'' \<mapsto> CStr [], ''proj1'' \<mapsto> CStr []],
      table_index = 9, write_queue = []\<rparr>"

definition paired :: policy where
  "paired = (solo alice)\<lparr>partner := Some dave\<rparr>"

section \<open>Decimal strings\<close>

lemma is_digit_digit_char: "d < 10 \<Longrightarrow> is_digit (digit_char d)"
  by (simp add: is_digit_def digit_char_def)

lemma digit_of_digit_char: "d < 10 \<Longrightarrow> digit_of (digit_char d) = d"
  by (simp add: digit_of_def digit_char_def)

lemma not_space_digit: "is_digit c \<Longrightarrow> \<not> is_space c"
  by (auto simp: is_digit_def is_space_def Let_def)

lemma show_nat_digits: "\<forall>c \<in> set (show_nat n). is_digit c"
  by (induction n rule: show_nat.induct) (subst show_nat.simps, auto simp: is_digit_digit_char)

lemma show_nat_nonempty: "show_nat n \<noteq> []"
  by (subst show_nat.simps) simp

lemma digits_value_all_digits:
  "\<forall>c \<in> set cs. is_digit c \<Longrightarrow>
     digits_value acc cs = Some (foldl (\<lambda>a c. 10 * a + digit_of c) acc cs)"
  by (induction cs arbitrary: acc) auto

lemma foldl_show_nat: "foldl (\<lambda>a c. 10 * a + digit_of c) 0 (show_nat n) = n"
  by (induction n rule: show_nat.induct) (subst show_nat.simps, auto simp: digit_of_digit_char)

lemma parse_nat_all_digits:
  "cs \<noteq> [] \<Longrightarrow> \<forall>c \<in> set cs. is_digit c \<Longrightarrow>
     parse_nat cs = Some (foldl (\<lambda>a c. 10 * a + digit_of c) 0 cs)"
  by (cases cs) (auto simp: parse_nat_def digits_value_all_digits)

lemma parse_nat_show_nat: "parse_nat (show_nat n) = Some n"
  by (simp add: parse_nat_all_digits show_nat_nonempty show_nat_digits foldl_show_nat)

lemma hd_show_nat_digit: "is_digit (hd (show_nat n))"
  using show_nat_digits[of n] show_nat_nonempty[of n] by (cases "show_nat n") auto

lemma last_show_nat_digit: "is_digit (last (show_nat n))"
  using show_nat_digits[of n] show_nat_nonempty[of n] last_in_set by blast

text \<open>Reading back the decimal string of an integer gives the integer.\<close>

lemma py_int_py_str_int: "py_int (py_str_int i) = Some i"
proof (cases "i < 0")
  case True
  then show ?thesis by (simp add: py_int_def py_str_int_def parse_nat_show_nat)
next
  case False
  obtain c cs where e: "show_nat (nat i) = c # cs"
    using show_nat_nonempty[of "nat i"] by (cases "show_nat (nat i)") auto
  have d: "is_digit c" using hd_show_nat_digit[of "nat i"] e by simp
  have "c \<noteq> CHR ''-''" "c \<noteq> CHR ''+''" using d by (auto simp: is_digit_def)
  with False e show ?thesis
    using parse_nat_show_nat[of "nat i"] by (simp add: py_int_def py_str_int_def)
qed

lemma dropWhile_id: "xs \<noteq> [] \<Longrightarrow> \<not> P (hd xs) \<Longrightarrow> dropWhile P xs = xs"
  by (cases xs) auto

lemma strip_no_space:
  assumes "s \<noteq> []" "\<not> is_space (hd s)" "\<not> is_space (last s)"
  shows "strip s = s"
proof -
  have a: "dropWhile is_space s = s"
    using assms by (simp add: dropWhile_id)
  have "hd (rev s) = last s" using assms(1) by (simp add: hd_rev)
  then have b: "dropWhile is_space (rev s) = rev s"
    using assms by (simp add: dropWhile_id)
  show ?thesis by (simp add: strip_def a b)
qed

lemma strip_py_str_int: "strip (py_str_int i) = py_str_int i"
proof (rule strip_no_space)
  show "py_str_int i \<noteq> []" by (simp add: py_str_int_def show_nat_nonempty)
  show "\<not> is_space (hd (py_str_int i))"
    using hd_show_nat_digit[of "nat i"] not_space_digit[of "hd (show_nat (nat i))"]
    by (auto simp: py_str_int_def is_space_def)
  show "\<not> is_space (last (py_str_int i))"
    using last_show_nat_digit by (auto simp: py_str_int_def not_space_digit show_nat_nonempty)
qed

lemma get_assignment_CInt:
  assumes "table_record r k = Some (CInt n)"
  shows "get_assignment r k = Inr (Some n)"
proof -
  have "py_str_int n \<noteq> []" by (simp add: py_str_int_def show_nat_nonempty)
  then show ?thesis
    using assms by (simp add: get_assignment_def strip_py_str_int py_int_py_str_int)
qed

section \<open>Evaluating the examples\<close>

lemma digit_char_values:
  "digit_char 0 = CHR ''0''" "digit_char 1 = CHR ''1''" "digit_char 2 = CHR ''2''"
  "digit_char 3 = CHR ''3''" "digit_char 4 = CHR ''4''" "digit_char 5 = CHR ''5''"
  "digit_char 6 = CHR ''6''" "digit_char 7 = CHR ''7''" "digit_char 8 = CHR ''8''"
  "digit_char 9 = CHR ''9''"
  by code_simp+

lemmas example_defs =
  course_env_def request_form_def solo_def hw1_def proj1_def alice_def bob_def
  roster_sheet_def never_past_due_def

lemmas eval_defs =
  process_request_def get_request_def get_assignment_def effective_days_def flag_cases_def
  queue_write_back_def add_warning_def strip_def is_space_def py_int_def parse_nat_def
  is_digit_def digit_of_def py_str_int_def show_nat.simps digit_char_values Let_def

lemmas submission_defs =
  process_submission_def too_many_requests_def mark_pending_def flush_def dispatch_writes_def
  update_cell_def set_status_pending_def set_status_def APPROVAL_STATUS_PENDING_def
  pair_reason_def

lemmas apply_defs =
  check_work_in_progress_def blocked_alone_def has_wip_status_def approval_status_def
  approve_def set_status_approved_def APPROVAL_STATUS_AUTO_APPROVED_def
  APPROVAL_STATUS_MANUAL_APPROVED_def send_emails_def send_email_def send_student_update_def
  dsp_warning_def apply_policy_def approve_and_notify_def check_for_warnings_def is_dsp_def

section \<open>Reading the granted length of an assignment\<close>

text \<open>
  C5. \<^verbatim>\<open>get_assignment\<close> answers \<open>None\<close> (and not 0) for a cell that is blank
  after stripping, the integer for a cell that holds an integer (an integer value, or a
  string that \<^verbatim>\<open>int\<close> reads), and raises a \<^verbatim>\<open>StudentRecordError\<close> carrying the id,
  the row and its index for a cell that is neither blank nor an integer.
\<close>

theorem get_assignment_absent_integer_or_error:
  "(table_record r k = Some v \<and> strip (py_str v) = [] \<longrightarrow> get_assignment r k = Inr None) \<and>
   (table_record r k = Some (CInt n) \<longrightarrow> get_assignment r k = Inr (Some n)) \<and>
   (table_record r k = Some v \<and> py_int (strip (py_str v)) = Some m \<longrightarrow>
      get_assignment r k = Inr (Some m)) \<and>
   (table_record r k = Some v \<and> strip (py_str v) \<noteq> [] \<and> py_int (strip (py_str v)) = None \<longrightarrow>
      get_assignment r k =
        Inl (StudentRecordError k (table_record r) (table_index r)
               (ValueError (strip (py_str v)))))"
proof (intro conjI impI)
  assume "table_record r k = Some v \<and> strip (py_str v) = []"
  then show "get_assignment r k = Inr None"
    by (simp add: get_assignment_def)
next
  assume "table_record r k = Some (CInt n)"
  then show "get_assignment r k = Inr (Some n)"
    by (rule get_assignment_CInt)
next
  assume a: "table_record r k = Some v \<and> py_int (strip (py_str v)) = Some m"
  then have "strip (py_str v) \<noteq> []"
    by (auto simp: py_int_def)
  with a show "get_assignment r k = Inr (Some m)"
    by (simp add: get_assignment_def)
next
  assume "table_record r k = Some v \<and> strip (py_str v) \<noteq> [] \<and> py_int (strip (py_str v)) = None"
  then show "get_assignment r k =
      Inl (StudentRecordError k (table_record r) (table_index r) (ValueError (strip (py_str v))))"
    by (simp add: get_assignment_def)
qed

theorem get_assignment_absent_integer_or_error_witness:
  "get_assignment alice ''hw1'' = Inr None \<and>
   get_assignment alice ''proj1'' = Inr (Some 4) \<and>
   get_assignment alice ''lab2'' = Inr (Some 12) \<and>
   get_assignment alice ''lab1'' =
     Inl (StudentRecordError ''lab1'' (table_record alice) 2 (ValueError ''n/a''))"
proof -
  have blank: "table_record alice ''hw1'' = Some (CStr '' '') \<and> strip (py_str (CStr '' '')) = []"
    by (simp add: alice_def strip_def is_space_def)
  have held: "table_record alice ''proj1'' = Some (CInt 4)"
    by (simp add: alice_def)
  have parsed: "table_record alice ''lab2'' = Some (CStr ''12 '')
      \<and> py_int (strip (py_str (CStr ''12 ''))) = Some 12"
    by (simp add: alice_def strip_def is_space_def py_int_def parse_nat_def is_digit_def
        digit_of_def)
  have broken: "table_record alice ''lab1'' = Some (CStr ''n/a'')
      \<and> strip (py_str (CStr ''n/a'')) \<noteq> []
      \<and> py_int (strip (py_str (CStr ''n/a''))) = None"
    by (simp add: alice_def strip_def is_space_def py_int_def parse_nat_def is_digit_def)
  have idx: "table_index alice = 2" "strip (py_str (CStr ''n/a'')) = ''n/a''"
    by (simp_all add: alice_def strip_def is_space_def)
  show ?thesis
    using get_assignment_absent_integer_or_error[of alice "''hw1''" "CStr '' ''"] blank
      get_assignment_absent_integer_or_error[of alice "''proj1''" _ 4] held
      get_assignment_absent_integer_or_error[of alice "''lab2''" "CStr ''12 ''" _ 12] parsed
      get_assignment_absent_integer_or_error[of alice "''lab1''" "CStr ''n/a''"] broken idx
    by simp
qed

section \<open>Dispatching the write queue\<close>

lemma map_add_twice: "(m ++ f) ++ f = m ++ f"
  by (auto simp: map_add_def fun_eq_iff split: option.splits)

lemma list_index_Some_iff: "list_index xs x \<noteq> None \<longleftrightarrow> x \<in> set xs"
  by (induction xs) auto

text \<open>What a dispatch that returns has done: every key was a header, one cell was written
  per queued pair, in order, and the row holds the queued values.\<close>

lemma dispatch_loop_Inr:
  "dispatch_loop hs ws (sh, r) = Inr (sh', r') \<Longrightarrow>
     fst ` set ws \<subseteq> set hs \<and>
     sh' = sh\<lparr>cell_updates := cell_updates sh
             @ map (\<lambda>(k, v). (table_index r, int (the (list_index hs k)), v)) ws\<rparr> \<and>
     r' = r\<lparr>table_record := table_record r ++ map_of (rev ws)\<rparr>"
proof (induction ws arbitrary: sh r)
  case Nil
  then show ?case by simp
next
  case (Cons w ws)
  obtain k v where w: "w = (k, v)" by (cases w)
  from Cons.prems w obtain i where i: "list_index hs k = Some i"
    by (auto split: option.splits)
  with Cons.prems w have
    "dispatch_loop hs ws (update_cell sh (table_index r) (int i) v,
        r\<lparr>table_record := (table_record r)(k \<mapsto> v)\<rparr>) = Inr (sh', r')"
    by simp
  from Cons.IH[OF this] i w show ?case
    using list_index_Some_iff[of hs k]
    by (auto simp: update_cell_def map_add_def fun_eq_iff split: option.splits)
qed

lemma dispatch_loop_succeeds:
  "fst ` set ws \<subseteq> set hs \<Longrightarrow> \<exists>sh' r'. dispatch_loop hs ws (sh, r) = Inr (sh', r')"
proof (induction ws arbitrary: sh r)
  case Nil
  then show ?case by simp
next
  case (Cons w ws)
  obtain k v where w: "w = (k, v)" by (cases w)
  with Cons.prems have "k \<in> set hs" by simp
  then obtain i where i: "list_index hs k = Some i"
    using list_index_Some_iff[of hs k] by auto
  from Cons.prems have "fst ` set ws \<subseteq> set hs" by simp
  from Cons.IH[OF this] w i show ?case by simp
qed

lemma dispatch_writes_Inr:
  assumes "dispatch_writes sh r = Inr (sh', r')"
  shows "fst ` set (write_queue r) \<subseteq> set (get_headers sh)"
    and "get_headers sh' = get_headers sh"
    and "cell_updates sh' = cell_updates sh
           @ map (\<lambda>(k, v). (table_index r, int (the (list_index (get_headers sh) k)), v))
               (write_queue r)"
    and "r' = r\<lparr>table_record := table_record r ++ map_of (rev (write_queue r))\<rparr>"
  using dispatch_loop_Inr[of "get_headers sh" "write_queue r" sh r sh' r'] assms
  by (simp_all add: dispatch_writes_def)

text \<open>
  C8. Dispatching a record whose write queue is empty returns the sheet and the record as
  they were: no cell is written and the row is unchanged.
\<close>

theorem dispatch_writes_empty_queue:
  "write_queue r = [] \<Longrightarrow> dispatch_writes sh r = Inr (sh, r)"
  by (simp add: dispatch_writes_def)

theorem dispatch_writes_empty_queue_witness:
  "write_queue alice = [] \<and> dispatch_writes roster_sheet alice = Inr (roster_sheet, alice)"
proof -
  have h: "write_queue alice = []" by (simp add: alice_def)
  show ?thesis using h dispatch_writes_empty_queue[OF h, of roster_sheet] by simp
qed

text \<open>
  C10. A dispatch that succeeds leaves the write queue as it was. A second dispatch right
  after it succeeds too, writes the same cells to the sheet once more, and returns the
  record unchanged: the row is the one the first dispatch left, and the queue is still
  there.
\<close>

theorem dispatch_writes_keeps_queue:
  assumes "dispatch_writes sh r = Inr (sh1, r1)"
  shows "write_queue r1 = write_queue r \<and>
         cell_updates sh1 = cell_updates sh
           @ map (\<lambda>(k, v). (table_index r, int (the (list_index (get_headers sh) k)), v))
               (write_queue r) \<and>
         dispatch_writes sh1 r1 =
           Inr (sh1\<lparr>cell_updates := cell_updates sh1
                  @ map (\<lambda>(k, v). (table_index r, int (the (list_index (get_headers sh) k)), v))
                      (write_queue r)\<rparr>, r1)"
proof -
  note first = dispatch_writes_Inr[OF assms]
  have q: "write_queue r1 = write_queue r" and i: "table_index r1 = table_index r"
    and t: "table_record r1 = table_record r ++ map_of (rev (write_queue r))"
    using first(4) by simp_all
  from first(1) first(2) q have "fst ` set (write_queue r1) \<subseteq> set (get_headers sh1)"
    by simp
  then obtain sh2 r2 where second: "dispatch_writes sh1 r1 = Inr (sh2, r2)"
    using dispatch_loop_succeeds[of "write_queue r1" "get_headers sh1" sh1 r1]
    by (auto simp: dispatch_writes_def)
  note snd = dispatch_writes_Inr[OF second]
  have "r2 = r1"
    using snd(4) q t by (simp add: map_add_twice)
  moreover have "sh2 = sh1\<lparr>cell_updates := cell_updates sh1
      @ map (\<lambda>(k, v). (table_index r, int (the (list_index (get_headers sh) k)), v))
          (write_queue r)\<rparr>"
    using snd(2) snd(3) first(2) q i by simp
  ultimately show ?thesis
    using first(3) q second by simp
qed

theorem dispatch_writes_keeps_queue_witness:
  "dispatch_writes roster_sheet bob =
     Inr (roster_sheet\<lparr>cell_updates := [(5, 3, CInt 3), (5, 4, CInt 5), (5, 3, CInt 4)]\<rparr>,
          bob\<lparr>table_record := (table_record bob)(''proj1'' \<mapsto> CInt 5, ''hw1'' \<mapsto> CInt 4)\<rparr>) \<and>
   dispatch_writes
     (roster_sheet\<lparr>cell_updates := [(5, 3, CInt 3), (5, 4, CInt 5), (5, 3, CInt 4)]\<rparr>)
     (bob\<lparr>table_record := (table_record bob)(''proj1'' \<mapsto> CInt 5, ''hw1'' \<mapsto> CInt 4)\<rparr>) =
     Inr (roster_sheet\<lparr>cell_updates :=
            [(5, 3, CInt 3), (5, 4, CInt 5), (5, 3, CInt 4),
             (5, 3, CInt 3), (5, 4, CInt 5), (5, 3, CInt 4)]\<rparr>,
          bob\<lparr>table_record := (table_record bob)(''proj1'' \<mapsto> CInt 5, ''hw1'' \<mapsto> CInt 4)\<rparr>)"
proof -
  have h: "dispatch_writes roster_sheet bob =
     Inr (roster_sheet\<lparr>cell_updates := [(5, 3, CInt 3), (5, 4, CInt 5), (5, 3, CInt 4)]\<rparr>,
          bob\<lparr>table_record := (table_record bob)(''proj1'' \<mapsto> CInt 5, ''hw1'' \<mapsto> CInt 4)\<rparr>)"
    by (simp add: dispatch_writes_def roster_sheet_def bob_def update_cell_def)
  have "write_queue bob = [(''hw1'', CInt 3), (''proj1'', CInt 5), (''hw1'', CInt 4)]"
    "table_index bob = 5"
    "get_headers roster_sheet = [''email'', ''approval_status'', ''is_dsp'', ''hw1'', ''proj1'']"
    by (simp_all add: bob_def roster_sheet_def)
  then show ?thesis
    using h dispatch_writes_keeps_queue[OF h] by simp
qed

section \<open>One round of the request loop\<close>

lemma get_request_write_queue [simp]:
  "get_request (r\<lparr>write_queue := q\<rparr>) k = get_request r k"
  by (simp add: get_request_def get_assignment_def Let_def split: option.splits)

lemma effective_days_write_queue [simp]:
  "effective_days (r\<lparr>write_queue := q\<rparr>) req = effective_days r req"
  by (simp add: effective_days_def)

lemma effective_days_ge: "snd req \<le> effective_days r req"
  by (simp add: effective_days_def split: sum.splits option.splits)

lemma flag_cases_overwrite:
  "flag_cases env sub a n nh =
     (case flag_cases env sub a n None of None \<Rightarrow> nh | Some x \<Rightarrow> Some x)"
  by (simp add: flag_cases_def)

text \<open>A round that returns has queued the effective days for the student (and for the
  partner of a partner assignment), and has put the pair through the flag cases.\<close>

lemma process_request_Inr:
  assumes "process_request env sub (a, d) (nh, p) = Inr (nh', p')"
  shows "nh' = flag_cases env sub a (effective_days (student p) (a, d)) nh"
    and "student p' =
           queue_write_back (student p) (get_id a) (CInt (effective_days (student p) (a, d)))"
    and "partner p' =
           (if is_partner_assignment a
            then map_option
                   (\<lambda>pt. queue_write_back pt (get_id a) (CInt (effective_days (student p) (a, d))))
                   (partner p)
            else partner p)"
    and "records_sheet p' = records_sheet p"
    and "emails p' = emails p"
  using assms
  by (auto simp: process_request_def effective_days_def add_warning_def Let_def
      split: sum.splits option.splits if_splits)

lemma process_request_succeeds:
  assumes "get_request (student p) (get_id a) = Inr ex"
  shows "\<exists>nh' p'. process_request env sub (a, d) (nh, p) = Inr (nh', p')"
  using assms by (simp add: process_request_def Let_def split: prod.splits)

lemma process_request_slack:
  assumes "process_request env sub (a, d) (nh, p) = Inr (nh', p')"
    and "get_request (student p) (get_id a) = Inr ex"
  shows "slack p' =
     slack p @
       (case ex of
          None \<Rightarrow> []
        | Some existing \<Rightarrow>
            if existing \<noteq> 0 \<and> d \<le> existing then
              [AddWarning
                 (''['' @ get_name a @ ''] student requested an extension for ''
                  @ py_str_int d @ '' days, which was <= an existing request of ''
                  @ py_str_int existing
                  @ '' days, so we kept the existing request in-place.'')]
            else [])"
  using assms
  by (auto simp: process_request_def add_warning_def Let_def split: option.splits if_splits)

section \<open>The thresholds\<close>

text \<open>
  C1. In a round of the loop for a submission without the DSP claim, effective days equal
  to the general threshold leave \<^verbatim>\<open>needs_human\<close> to the retroactive case alone (it
  keeps its value unless the assignment is past due), and effective days of the
  threshold plus one set the reason of flag case 1. With the DSP claim the same holds
  of the DSP threshold and flag case 2. The effective days are what the round queues for
  the student.
\<close>

theorem threshold_boundary:
  assumes "process_request env sub (a, d) (nh, p) = Inr (nh', p')"
  shows
    "write_queue (student p') =
       write_queue (student p) @ [(get_id a, CInt (effective_days (student p) (a, d)))] \<and>
     (\<not> claims_dsp sub \<and> effective_days (student p) (a, d) = get_auto_approve_threshold env \<longrightarrow>
        nh' = (if is_past_due a (get_timestamp sub)
               then Some ''student requested a retroactive extension on an assignment''
               else nh)) \<and>
     (\<not> claims_dsp sub \<and> effective_days (student p) (a, d) = get_auto_approve_threshold env + 1 \<longrightarrow>
        truthy_str nh' \<and>
        nh' = (if get_auto_approve_threshold env \<le> 0 then Some ''auto-approve is disabled''
               else Some (''a request of '' @ py_str_int (get_auto_approve_threshold env + 1)
                      @ '' days is greater than auto-approve threshold of ''
                      @ py_str_int (get_auto_approve_threshold env) @ '' days''))) \<and>
     (claims_dsp sub \<and> effective_days (student p) (a, d) = get_auto_approve_threshold_dsp env \<longrightarrow>
        nh' = (if is_past_due a (get_timestamp sub)
               then Some ''student requested a retroactive extension on an assignment''
               else nh)) \<and>
     (claims_dsp sub \<and> effective_days (student p) (a, d) = get_auto_approve_threshold_dsp env + 1 \<longrightarrow>
        truthy_str nh' \<and>
        nh' = Some (''a DSP request of '' @ py_str_int (get_auto_approve_threshold_dsp env + 1)
                @ '' days is greater than DSP auto-approve threshold''))"
proof -
  note r = process_request_Inr[OF assms]
  have q: "write_queue (student p') =
       write_queue (student p) @ [(get_id a, CInt (effective_days (student p) (a, d)))]"
    using r(2) by (simp add: queue_write_back_def)
  have n: "nh' = flag_cases env sub a (effective_days (student p) (a, d)) nh"
    by (rule r(1))
  show ?thesis
    unfolding q n by (simp add: flag_cases_def)
qed

theorem threshold_boundary_witness:
  "\<not> claims_dsp (request_form False [(hw1, 5)]) \<and>
   effective_days alice (hw1, 5) = get_auto_approve_threshold course_env \<and>
   effective_days alice (hw1, 6) = get_auto_approve_threshold course_env + 1 \<and>
   claims_dsp (request_form True [(hw1, 7)]) \<and>
   effective_days alice (hw1, 7) = get_auto_approve_threshold_dsp course_env \<and>
   effective_days alice (hw1, 8) = get_auto_approve_threshold_dsp course_env + 1 \<and>
   process_request course_env (request_form False [(hw1, 5)]) (hw1, 5) (None, solo alice) =
     Inr (None, (solo alice)\<lparr>student := alice\<lparr>write_queue := [(''hw1'', CInt 5)]\<rparr>\<rparr>) \<and>
   process_request course_env (request_form False [(hw1, 6)]) (hw1, 6) (None, solo alice) =
     Inr (Some ''a request of 6 days is greater than auto-approve threshold of 5 days'',
          (solo alice)\<lparr>student := alice\<lparr>write_queue := [(''hw1'', CInt 6)]\<rparr>\<rparr>) \<and>
   process_request course_env (request_form True [(hw1, 7)]) (hw1, 7) (None, solo alice) =
     Inr (None, (solo alice)\<lparr>student := alice\<lparr>write_queue := [(''hw1'', CInt 7)]\<rparr>\<rparr>) \<and>
   process_request course_env (request_form True [(hw1, 8)]) (hw1, 8) (None, solo alice) =
     Inr (Some ''a DSP request of 8 days is greater than DSP auto-approve threshold'',
          (solo alice)\<lparr>student := alice\<lparr>write_queue := [(''hw1'', CInt 8)]\<rparr>\<rparr>)"
proof -
  have at: "process_request course_env (request_form False [(hw1, 5)]) (hw1, 5) (None, solo alice) =
     Inr (None, (solo alice)\<lparr>student := alice\<lparr>write_queue := [(''hw1'', CInt 5)]\<rparr>\<rparr>)"
    by (simp add: example_defs eval_defs)
  have above: "process_request course_env (request_form False [(hw1, 6)]) (hw1, 6) (None, solo alice) =
     Inr (Some ''a request of 6 days is greater than auto-approve threshold of 5 days'',
          (solo alice)\<lparr>student := alice\<lparr>write_queue := [(''hw1'', CInt 6)]\<rparr>\<rparr>)"
    by (simp add: example_defs eval_defs)
  have at_dsp: "process_request course_env (request_form True [(hw1, 7)]) (hw1, 7) (None, solo alice) =
     Inr (None, (solo alice)\<lparr>student := alice\<lparr>write_queue := [(''hw1'', CInt 7)]\<rparr>\<rparr>)"
    by (simp add: example_defs eval_defs)
  have above_dsp: "process_request course_env (request_form True [(hw1, 8)]) (hw1, 8) (None, solo alice) =
     Inr (Some ''a DSP request of 8 days is greater than DSP auto-approve threshold'',
          (solo alice)\<lparr>student := alice\<lparr>write_queue := [(''hw1'', CInt 8)]\<rparr>\<rparr>)"
    by (simp add: example_defs eval_defs)
  show ?thesis
    using threshold_boundary[OF at] threshold_boundary[OF above]
      threshold_boundary[OF at_dsp] threshold_boundary[OF above_dsp]
      at above at_dsp above_dsp
    by (simp add: example_defs eval_defs)
qed

section \<open>An existing request\<close>

text \<open>
  C9. When the cell of the assignment reads as the integer 0,
  \<^verbatim>\<open>has_existing_request\<close> answers \<^verbatim>\<open>False\<close>, and a round of the loop takes the
  new request as it is, whatever its number of days: that number is queued for the
  student, the flag cases see that number, and no warning is added.
\<close>

theorem zero_length_treated_as_absent:
  assumes "get_assignment (student p) (get_id a) = Inr (Some 0)"
  shows "has_existing_request (student p) (get_id a) = Inr False \<and>
         (case process_request env sub (a, d) (nh, p) of
            Inl e \<Rightarrow> False
          | Inr (nh', p') \<Rightarrow>
              nh' = flag_cases env sub a d nh \<and>
              write_queue (student p') = write_queue (student p) @ [(get_id a, CInt d)] \<and>
              slack p' = slack p)"
  using assms
  by (simp add: has_existing_request_def process_request_def get_request_def
      queue_write_back_def Let_def split: option.splits)

theorem zero_length_treated_as_absent_witness:
  "get_assignment (student (solo bob)) (get_id hw1) = Inr (Some 0) \<and>
   has_existing_request (student (solo bob)) (get_id hw1) = Inr False \<and>
   (case process_request course_env (request_form False [(hw1, 2)]) (hw1, 2) (None, solo bob) of
      Inl e \<Rightarrow> False
    | Inr (nh', p') \<Rightarrow>
        nh' = flag_cases course_env (request_form False [(hw1, 2)]) hw1 2 None \<and>
        write_queue (student p') = write_queue (student (solo bob)) @ [(get_id hw1, CInt 2)] \<and>
        slack p' = slack (solo bob))"
proof -
  have h: "get_assignment (student (solo bob)) (get_id hw1) = Inr (Some 0)"
    by (simp add: example_defs eval_defs)
  show ?thesis
    using h zero_length_treated_as_absent[OF h] by simp
qed

text \<open>
  C3, as the code has it. When the existing request for the assignment is an integer other
  than 0 and the new request does not exceed it, the round queues the existing length for
  the student, adds the warning, and sets a reason only through the flag cases, applied
  to the existing length: when none of them applies \<^verbatim>\<open>needs_human\<close> keeps its
  value.
\<close>

theorem existing_request_kept:
  assumes "get_request (student p) (get_id a) = Inr (Some existing)"
    and "existing \<noteq> 0" and "d \<le> existing"
  shows "case process_request env sub (a, d) (nh, p) of
           Inl e \<Rightarrow> False
         | Inr (nh', p') \<Rightarrow>
             write_queue (student p') = write_queue (student p) @ [(get_id a, CInt existing)] \<and>
             slack p' = slack p @
               [AddWarning
                  (''['' @ get_name a @ ''] student requested an extension for ''
                   @ py_str_int d @ '' days, which was <= an existing request of ''
                   @ py_str_int existing
                   @ '' days, so we kept the existing request in-place.'')] \<and>
             nh' = flag_cases env sub a existing nh \<and>
             (flag_cases env sub a existing None = None \<longrightarrow> nh' = nh)"
  using assms
  by (simp add: process_request_def queue_write_back_def add_warning_def flag_cases_def Let_def
      split: option.splits)

theorem existing_request_kept_witness:
  "get_request (student (solo alice)) (get_id proj1) = Inr (Some 4) \<and> (4::int) \<noteq> 0 \<and> (3::int) \<le> 4 \<and>
   process_request course_env (request_form False [(proj1, 3)]) (proj1, 3) (None, solo alice) =
     Inr (None,
          \<lparr>student = alice\<lparr>write_queue := [(''proj1'', CInt 4)]\<rparr>, partner = None,
           records_sheet = roster_sheet,
           slack = [AddWarning ''[Project 1] student requested an extension for 3 days, which was <= an existing request of 4 days, so we kept the existing request in-place.''],
           emails = []\<rparr>)"
proof -
  have h: "get_request (student (solo alice)) (get_id proj1) = Inr (Some 4)"
    by (simp add: example_defs eval_defs)
  have v: "process_request course_env (request_form False [(proj1, 3)]) (proj1, 3) (None, solo alice) =
     Inr (None,
          \<lparr>student = alice\<lparr>write_queue := [(''proj1'', CInt 4)]\<rparr>, partner = None,
           records_sheet = roster_sheet,
           slack = [AddWarning ''[Project 1] student requested an extension for 3 days, which was <= an existing request of 4 days, so we kept the existing request in-place.''],
           emails = []\<rparr>)"
    by (simp add: example_defs eval_defs)
  show ?thesis
    using h v existing_request_kept[OF h, of 3 course_env "request_form False [(proj1, 3)]" None]
    by simp
qed

text \<open>
  C3 as stated fails when the existing request is 0: the lookup returns the integer 0, the
  new request of 0 days does not exceed it, and the round adds no warning.
\<close>

theorem existing_request_zero_no_warning:
  "get_request (student (solo bob)) (get_id hw1) = Inr (Some 0) \<and> (0::int) \<le> 0 \<and>
   process_request course_env (request_form False [(hw1, 0)]) (hw1, 0) (None, solo bob) =
     Inr (None,
          \<lparr>student = bob\<lparr>write_queue := write_queue bob @ [(''hw1'', CInt 0)]\<rparr>, partner = None,
           records_sheet = roster_sheet, slack = [], emails = []\<rparr>)"
  by (simp add: example_defs eval_defs)

section \<open>A threshold of zero or below\<close>

text \<open>
  C6, as the code has it. For a submission without the DSP claim and a general threshold
  of zero or below, a round whose effective days exceed the threshold sets the reason
  \<^verbatim>\<open>auto-approve is disabled\<close>; every request of at least one day is such a round.
\<close>

theorem disabled_threshold_escalates:
  assumes "process_request env sub (a, d) (nh, p) = Inr (nh', p')"
    and "\<not> claims_dsp sub" and "get_auto_approve_threshold env \<le> 0"
  shows "(get_auto_approve_threshold env < effective_days (student p) (a, d) \<longrightarrow>
            nh' = Some ''auto-approve is disabled'') \<and>
         (1 \<le> d \<longrightarrow> nh' = Some ''auto-approve is disabled'')"
proof -
  have n: "nh' = flag_cases env sub a (effective_days (student p) (a, d)) nh"
    by (rule process_request_Inr(1)[OF assms(1)])
  have "d \<le> effective_days (student p) (a, d)"
    using effective_days_ge[of "(a, d)" "student p"] by simp
  then have "1 \<le> d \<Longrightarrow> get_auto_approve_threshold env < effective_days (student p) (a, d)"
    using assms(3) by linarith
  then show ?thesis
    using assms(2,3) unfolding n by (auto simp: flag_cases_def)
qed

theorem disabled_threshold_escalates_witness:
  "process_request closed_env (request_form False [(hw1, 1)]) (hw1, 1) (None, solo alice) =
     Inr (Some ''auto-approve is disabled'',
          (solo alice)\<lparr>student := alice\<lparr>write_queue := [(''hw1'', CInt 1)]\<rparr>\<rparr>) \<and>
   \<not> claims_dsp (request_form False [(hw1, 1)]) \<and> get_auto_approve_threshold closed_env \<le> 0 \<and>
   (1::int) \<le> 1"
proof -
  have h: "process_request closed_env (request_form False [(hw1, 1)]) (hw1, 1) (None, solo alice) =
     Inr (Some ''auto-approve is disabled'',
          (solo alice)\<lparr>student := alice\<lparr>write_queue := [(''hw1'', CInt 1)]\<rparr>\<rparr>)"
    by (simp add: example_defs closed_env_def eval_defs)
  have c: "\<not> claims_dsp (request_form False [(hw1, 1)])"
    by (simp add: request_form_def)
  have t: "get_auto_approve_threshold closed_env \<le> 0"
    by (simp add: closed_env_def)
  show ?thesis
    using h c t disabled_threshold_escalates[OF h c t] by simp
qed

text \<open>
  C6 as stated fails for a request of 0 days under a threshold of 0: the claim flag is
  absent, the threshold is not above zero, and the round sets no reason.
\<close>

theorem disabled_threshold_zero_days_passes:
  "\<not> claims_dsp (request_form False [(hw1, 0)]) \<and> get_auto_approve_threshold closed_env \<le> 0 \<and>
   process_request closed_env (request_form False [(hw1, 0)]) (hw1, 0) (None, solo alice) =
     Inr (None,
          \<lparr>student = alice\<lparr>write_queue := [(''hw1'', CInt 0)]\<rparr>, partner = None,
           records_sheet = roster_sheet, slack = [], emails = []\<rparr>)"
  by (simp add: example_defs closed_env_def eval_defs)

section \<open>The reason that is kept\<close>

lemma pair_reason_write_queue [simp]:
  "pair_reason env sub (r\<lparr>write_queue := q\<rparr>) req = pair_reason env sub r req"
  by (simp add: pair_reason_def)

text \<open>The loop, when it returns: the reason is that of the last pair that sets one, the
  starting value when none does, and one write per pair is queued for the student.\<close>

lemma process_requests_Inr:
  "process_requests env sub reqs (nh, p) = Inr (nh', p') \<Longrightarrow>
     nh' = (case filter (\<lambda>r. r \<noteq> None) (map (pair_reason env sub (student p)) reqs) of
              [] \<Rightarrow> nh
            | x # xs \<Rightarrow> last (x # xs)) \<and>
     student p' =
       (student p)\<lparr>write_queue := write_queue (student p)
          @ map (\<lambda>req. (get_id (fst req), CInt (effective_days (student p) req))) reqs\<rparr>"
proof (induction reqs arbitrary: nh p)
  case Nil
  then show ?case by simp
next
  case (Cons req reqs)
  obtain a d where req: "req = (a, d)" by (cases req)
  from Cons.prems req obtain nh1 p1 where
    one: "process_request env sub (a, d) (nh, p) = Inr (nh1, p1)" and
    rest: "process_requests env sub reqs (nh1, p1) = Inr (nh', p')"
    by (auto split: sum.splits)
  note r = process_request_Inr[OF one]
  have s1: "student p1 =
      (student p)\<lparr>write_queue := write_queue (student p)
         @ [(get_id a, CInt (effective_days (student p) (a, d)))]\<rparr>"
    using r(2) by (simp add: queue_write_back_def)
  have n1: "nh1 = (case pair_reason env sub (student p) (a, d) of None \<Rightarrow> nh | Some x \<Rightarrow> Some x)"
    using r(1) flag_cases_overwrite[of env sub a "effective_days (student p) (a, d)" nh]
    by (simp add: pair_reason_def)
  from Cons.IH[OF rest] have
    ih_n: "nh' = (case filter (\<lambda>r. r \<noteq> None) (map (pair_reason env sub (student p)) reqs) of
              [] \<Rightarrow> nh1
            | x # xs \<Rightarrow> last (x # xs))" and
    ih_s: "student p' =
       (student p1)\<lparr>write_queue := write_queue (student p1)
          @ map (\<lambda>req. (get_id (fst req), CInt (effective_days (student p) req))) reqs\<rparr>"
    by (simp_all add: s1)
  have "nh' = (case filter (\<lambda>r. r \<noteq> None) (map (pair_reason env sub (student p)) (req # reqs)) of
              [] \<Rightarrow> nh
            | x # xs \<Rightarrow> last (x # xs))"
    using ih_n n1 req by (auto split: list.splits option.splits)
  moreover have "student p' =
       (student p)\<lparr>write_queue := write_queue (student p)
          @ map (\<lambda>req. (get_id (fst req), CInt (effective_days (student p) req))) (req # reqs)\<rparr>"
    using ih_s s1 req by simp
  ultimately show ?case by simp
qed

text \<open>The partner, when there is one, gets the same write for every pair whose assignment
  is a partner assignment, and for no other pair.\<close>

lemma process_requests_partner:
  "process_requests env sub reqs (nh, p) = Inr (nh', p') \<Longrightarrow>
     partner p' =
       map_option
         (\<lambda>pt. pt\<lparr>write_queue := write_queue pt
            @ map (\<lambda>req. (get_id (fst req), CInt (effective_days (student p) req)))
                (filter (\<lambda>req. is_partner_assignment (fst req)) reqs)\<rparr>)
         (partner p)"
proof (induction reqs arbitrary: nh p)
  case Nil
  then show ?case by (cases "partner p") simp_all
next
  case (Cons req reqs)
  obtain a d where req: "req = (a, d)" by (cases req)
  from Cons.prems req obtain nh1 p1 where
    one: "process_request env sub (a, d) (nh, p) = Inr (nh1, p1)" and
    rest: "process_requests env sub reqs (nh1, p1) = Inr (nh', p')"
    by (auto split: sum.splits)
  note r = process_request_Inr[OF one]
  have s1: "student p1 =
      (student p)\<lparr>write_queue := write_queue (student p)
         @ [(get_id a, CInt (effective_days (student p) (a, d)))]\<rparr>"
    using r(2) by (simp add: queue_write_back_def)
  from Cons.IH[OF rest] have ih: "partner p' =
       map_option
         (\<lambda>pt. pt\<lparr>write_queue := write_queue pt
            @ map (\<lambda>req. (get_id (fst req), CInt (effective_days (student p) req)))
                (filter (\<lambda>req. is_partner_assignment (fst req)) reqs)\<rparr>)
         (partner p1)"
    by (simp add: s1)
  show ?case
    unfolding ih r(3) using req
    by (cases "partner p") (simp_all add: queue_write_back_def)
qed

lemma flush_write_queue:
  "flush sh r = Inr (sh', r') \<Longrightarrow> write_queue r' = write_queue r"
  using dispatch_writes_Inr(4)[of sh r sh' r'] by (simp add: flush_def)

lemma mark_pending_write_queue:
  "mark_pending p = Inr p' \<Longrightarrow> write_queue (student p') = write_queue (student p)"
  by (auto simp: mark_pending_def set_status_pending_def set_status_def
      split: sum.splits option.splits dest!: flush_write_queue)

lemma mark_pending_partner_write_queue:
  "mark_pending p = Inr p' \<Longrightarrow>
     map_option write_queue (partner p') = map_option write_queue (partner p)"
  by (auto simp: mark_pending_def set_status_pending_def set_status_def
      split: sum.splits option.splits dest!: flush_write_queue)

text \<open>
  C2. When \<^verbatim>\<open>process_submission\<close> returns, the reason it returns is the one set by
  the last pair that sets a reason on its own; the reason of the check made before the
  loop is returned only when no pair sets one. In the policy it returns, the write queue
  of the student has one more write per pair, in the order of the pairs, and the write
  queue of the partner, when there is one, has one more write per pair of a partner
  assignment, whatever reasons were set.
\<close>

theorem last_escalation_reason_wins:
  assumes "process_submission env sub p = Inr (nh', p')"
  shows "nh' = (case filter (\<lambda>r. r \<noteq> None)
                      (map (pair_reason env sub (student p)) (get_requests sub)) of
                  [] \<Rightarrow> too_many_requests env sub
                | x # xs \<Rightarrow> last (x # xs)) \<and>
         write_queue (student p') =
           write_queue (student p)
           @ map (\<lambda>req. (get_id (fst req), CInt (effective_days (student p) req)))
               (get_requests sub) \<and>
         map_option write_queue (partner p') =
           map_option
             (\<lambda>pt. write_queue pt
                @ map (\<lambda>req. (get_id (fst req), CInt (effective_days (student p) req)))
                    (filter (\<lambda>req. is_partner_assignment (fst req)) (get_requests sub)))
             (partner p)"
proof -
  from assms obtain p1 where
    loop: "process_requests env sub (get_requests sub) (too_many_requests env sub, p) = Inr (nh', p1)"
    and tail: "p' = p1 \<or> mark_pending p1 = Inr p'"
    by (auto simp: process_submission_def split: sum.splits if_splits)
  from tail have s: "write_queue (student p') = write_queue (student p1)"
    using mark_pending_write_queue by auto
  from tail have t: "map_option write_queue (partner p') = map_option write_queue (partner p1)"
    using mark_pending_partner_write_queue by auto
  have "map_option write_queue (partner p1) =
           map_option
             (\<lambda>pt. write_queue pt
                @ map (\<lambda>req. (get_id (fst req), CInt (effective_days (student p) req)))
                    (filter (\<lambda>req. is_partner_assignment (fst req)) (get_requests sub)))
             (partner p)"
    unfolding process_requests_partner[OF loop] by (cases "partner p") simp_all
  with process_requests_Inr[OF loop] s t show ?thesis by simp
qed

theorem last_escalation_reason_wins_witness:
  "too_many_requests course_env (partner_form [(hw1, 9), (proj1, 8)]) =
     Some ''this student has requested more assignment extensions (2) than the auto-approve threshold ({Environment.get_auto_approve_assignment_threshold()})'' \<and>
   map (pair_reason course_env (partner_form [(hw1, 9), (proj1, 8)]) alice)
     [(hw1, 9), (proj1, 8)] =
     [Some ''a request of 9 days is greater than auto-approve threshold of 5 days'',
      Some ''a request of 8 days is greater than auto-approve threshold of 5 days''] \<and>
   (case process_submission course_env (partner_form [(hw1, 9), (proj1, 8)]) paired of
      Inl e \<Rightarrow> False
    | Inr (nh', p') \<Rightarrow>
        nh' = Some ''a request of 8 days is greater than auto-approve threshold of 5 days'' \<and>
        write_queue (student p') = [(''hw1'', CInt 9), (''proj1'', CInt 8)] \<and>
        map_option write_queue (partner p') = Some [(''proj1'', CInt 8)])"
proof -
  have "\<exists>nh' p'. process_submission course_env (partner_form [(hw1, 9), (proj1, 8)]) paired
      = Inr (nh', p')"
    by (simp add: example_defs partner_form_def paired_def dave_def eval_defs submission_defs)
  then obtain nh' p' where
    h: "process_submission course_env (partner_form [(hw1, 9), (proj1, 8)]) paired = Inr (nh', p')"
    by blast
  have pre: "too_many_requests course_env (partner_form [(hw1, 9), (proj1, 8)]) =
     Some ''this student has requested more assignment extensions (2) than the auto-approve threshold ({Environment.get_auto_approve_assignment_threshold()})''"
    by (simp add: example_defs partner_form_def eval_defs submission_defs)
  have pairs: "map (pair_reason course_env (partner_form [(hw1, 9), (proj1, 8)]) alice)
     [(hw1, 9), (proj1, 8)] =
     [Some ''a request of 9 days is greater than auto-approve threshold of 5 days'',
      Some ''a request of 8 days is greater than auto-approve threshold of 5 days'']"
    by (simp add: example_defs partner_form_def eval_defs submission_defs)
  have eff: "map (\<lambda>req. (get_id (fst req), CInt (effective_days alice req))) [(hw1, 9), (proj1, 8)]
      = [(''hw1'', CInt 9), (''proj1'', CInt 8)]"
    "map (\<lambda>req. (get_id (fst req), CInt (effective_days alice req)))
       (filter (\<lambda>req. is_partner_assignment (fst req)) [(hw1, 9), (proj1, 8)])
      = [(''proj1'', CInt 8)]"
    by (simp_all add: example_defs eval_defs)
  have st: "student paired = alice" "partner paired = Some dave" "write_queue alice = []"
    "write_queue dave = []"
    "get_requests (partner_form [(hw1, 9), (proj1, 8)]) = [(hw1, 9), (proj1, 8)]"
    by (simp_all add: paired_def solo_def alice_def dave_def partner_form_def request_form_def)
  show ?thesis
    using last_escalation_reason_wins[OF h] h pre pairs eff st by simp
qed

section \<open>A request for a meeting\<close>

text \<open>
  C4. For a submission that knows no assignments, \<^verbatim>\<open>apply\<close> returns after its first
  step: the status of the student is \<^verbatim>\<open>Requested Meeting\<close>, the write queue of the
  student is as it was, the partner, the sheet and the list of emails sent are as they
  were, and the only update sent to Slack is the one about the meeting. The mailer is not
  asked: any other mailer gives the same result.
\<close>

theorem meeting_request_outcome:
  assumes "\<not> knows_assignments sub"
  shows "(case apply_policy env sub mailer silent p of
            Inl e \<Rightarrow> False
          | Inr p' \<Rightarrow>
              approval_status (student p') = Inr (CStr APPROVAL_STATUS_REQUESTED_MEETING) \<and>
              student p' = set_status_requested_meeting (student p) \<and>
              write_queue (student p') = write_queue (student p) \<and>
              partner p' = partner p \<and>
              records_sheet p' = records_sheet p \<and>
              emails p' = emails p \<and>
              slack p' = slack p @ (if silent then [Suppress] else [])
                @ [SendStudentUpdate ''A student requested a student support meeting.'' False]) \<and>
         apply_policy env sub mailer silent p = apply_policy env sub mailer' silent p"
  using assms
  by (simp add: apply_policy_def send_student_update_def set_status_requested_meeting_def
      set_status_def approval_status_def Let_def)

theorem meeting_request_outcome_witness:
  "\<not> knows_assignments meeting_form \<and>
   apply_policy course_env meeting_form failing_mailer False (solo alice) =
     Inr \<lparr>student = alice\<lparr>table_record :=
                    (table_record alice)(''approval_status'' \<mapsto> CStr ''Requested Meeting'')\<rparr>,
          partner = None, records_sheet = roster_sheet,
          slack = [SendStudentUpdate ''A student requested a student support meeting.'' False],
          emails = []\<rparr>"
proof -
  have h: "\<not> knows_assignments meeting_form"
    by (simp add: meeting_form_def)
  have s: "set_status_requested_meeting alice =
      alice\<lparr>table_record := (table_record alice)(''approval_status'' \<mapsto> CStr ''Requested Meeting'')\<rparr>"
    by (simp add: set_status_requested_meeting_def set_status_def
        APPROVAL_STATUS_REQUESTED_MEETING_def)
  show ?thesis
    using h s meeting_request_outcome[OF h, where env = course_env and mailer = failing_mailer
        and silent = False and p = "solo alice"]
    by (cases "apply_policy course_env meeting_form failing_mailer False (solo alice)")
      (simp_all add: solo_def)
qed

section \<open>The warning about the DSP claim\<close>

lemma approve_add_warning:
  "map_sum id (\<lambda>q. (student q, partner q, records_sheet q, emails q)) (approve (add_warning w p)) =
   map_sum id (\<lambda>q. (student q, partner q, records_sheet q, emails q)) (approve p)"
  by (simp add: approve_def add_warning_def send_student_update_def
      split: sum.splits option.splits prod.splits)

lemma check_for_warnings_Inr:
  assumes "table_record (student p) ''is_dsp'' = Some v"
  shows "check_for_warnings sub p =
           Inr (if claims_dsp sub \<and> \<not> truthy v then add_warning (dsp_warning sub) p else p)"
  using assms by (simp add: check_for_warnings_def is_dsp_def)

text \<open>An evaluation in which neither \<^verbatim>\<open>process_submission\<close> nor
  \<^verbatim>\<open>check_work_in_progress\<close> asks for a human goes on to steps 4 to 6.\<close>

lemma apply_policy_passes:
  assumes "knows_assignments sub"
    and "process_submission env sub (if silent then p0\<lparr>slack := slack p0 @ [Suppress]\<rparr> else p0)
           = Inr (needs_human, p1)"
    and "\<not> truthy_str needs_human"
    and "check_work_in_progress sub p1 = Inr (work_in_progress, p2)"
    and "\<not> truthy_str work_in_progress"
  shows "apply_policy env sub mailer silent p0 = approve_and_notify sub mailer silent p2"
  using assms by (simp add: apply_policy_def Let_def)

text \<open>
  C7, as the code has it. Take an evaluation in which neither \<^verbatim>\<open>process_submission\<close>
  nor \<^verbatim>\<open>check_work_in_progress\<close> asks for a human, on a record that has the
  \<^verbatim>\<open>is_dsp\<close> entry. Then \<^verbatim>\<open>check_for_warnings\<close> returns; it adds the warning
  exactly when the submission claims DSP and the entry of the record is false, and changes
  nothing else. \<^verbatim>\<open>apply\<close> goes on to \<^verbatim>\<open>approve\<close> and the emails in either case, and
  what \<^verbatim>\<open>approve\<close> does to the records and the sheet is the same with the warning as
  without it.
\<close>

theorem dsp_claim_warning:
  assumes "knows_assignments sub"
    and "process_submission env sub (if silent then p0\<lparr>slack := slack p0 @ [Suppress]\<rparr> else p0)
           = Inr (needs_human, p1)"
    and "\<not> truthy_str needs_human"
    and "check_work_in_progress sub p1 = Inr (work_in_progress, p2)"
    and "\<not> truthy_str work_in_progress"
    and "table_record (student p2) ''is_dsp'' = Some v"
  shows "check_for_warnings sub p2 =
           Inr (if claims_dsp sub \<and> \<not> truthy v then add_warning (dsp_warning sub) p2 else p2) \<and>
         apply_policy env sub mailer silent p0 =
           (case approve (if claims_dsp sub \<and> \<not> truthy v then add_warning (dsp_warning sub) p2
                          else p2) of
              Inl e \<Rightarrow> Inl e
            | Inr p3 \<Rightarrow> if silent then Inr p3 else send_emails mailer p3) \<and>
         map_sum id (\<lambda>q. (student q, partner q, records_sheet q, emails q))
           (approve (if claims_dsp sub \<and> \<not> truthy v then add_warning (dsp_warning sub) p2
                     else p2)) =
         map_sum id (\<lambda>q. (student q, partner q, records_sheet q, emails q)) (approve p2)"
proof -
  note c = check_for_warnings_Inr[OF assms(6), of sub]
  have "apply_policy env sub mailer silent p0 = approve_and_notify sub mailer silent p2"
    by (rule apply_policy_passes[OF assms(1-5)])
  also have "\<dots> =
      (case approve (if claims_dsp sub \<and> \<not> truthy v then add_warning (dsp_warning sub) p2
                     else p2) of
         Inl e \<Rightarrow> Inl e
       | Inr p3 \<Rightarrow> if silent then Inr p3 else send_emails mailer p3)"
    unfolding approve_and_notify_def c by (simp split: sum.splits)
  finally show ?thesis
    using c approve_add_warning[of "dsp_warning sub" p2] by simp
qed

theorem dsp_claim_warning_witness:
  "knows_assignments (request_form True [(hw1, 3)]) \<and>
   process_submission course_env (request_form True [(hw1, 3)]) (solo alice) =
     Inr (None, (solo alice)\<lparr>student := alice\<lparr>write_queue := [(''hw1'', CInt 3)]\<rparr>\<rparr>) \<and>
   check_work_in_progress (request_form True [(hw1, 3)])
       ((solo alice)\<lparr>student := alice\<lparr>write_queue := [(''hw1'', CInt 3)]\<rparr>\<rparr>) =
     Inr (None, (solo alice)\<lparr>student := alice\<lparr>write_queue := [(''hw1'', CInt 3)]\<rparr>\<rparr>) \<and>
   table_record (student ((solo alice)\<lparr>student := alice\<lparr>write_queue := [(''hw1'', CInt 3)]\<rparr>\<rparr>))
       ''is_dsp'' = Some (CBool False) \<and>
   (case apply_policy course_env (request_form True [(hw1, 3)]) working_mailer False (solo alice) of
      Inl e \<Rightarrow> False
    | Inr p' \<Rightarrow>
        slack p' =
          [AddWarning (''Student alice@berkeley.edu responded '' @ [CHR 0x27] @ ''Yes''
             @ [CHR 0x27] @ '' to DSP question in extension request, but is not marked for DSP approval on the roster. Please investigate!''),
           SendStudentUpdate ''An extension request was automatically approved!'' True] \<and>
        table_record (student p') ''approval_status'' = Some (CStr ''Auto Approved'') \<and>
        cell_updates (records_sheet p') = [(2, 3, CInt 3)] \<and>
        length (emails p') = 1)"
proof -
  have h1: "knows_assignments (request_form True [(hw1, 3)])"
    by (simp add: request_form_def)
  have h2: "process_submission course_env (request_form True [(hw1, 3)])
      (if False then (solo alice)\<lparr>slack := slack (solo alice) @ [Suppress]\<rparr> else solo alice) =
     Inr (None, (solo alice)\<lparr>student := alice\<lparr>write_queue := [(''hw1'', CInt 3)]\<rparr>\<rparr>)"
    by (simp add: example_defs eval_defs submission_defs)
  have h3: "\<not> truthy_str None"
    by simp
  have h4: "check_work_in_progress (request_form True [(hw1, 3)])
       ((solo alice)\<lparr>student := alice\<lparr>write_queue := [(''hw1'', CInt 3)]\<rparr>\<rparr>) =
     Inr (None, (solo alice)\<lparr>student := alice\<lparr>write_queue := [(''hw1'', CInt 3)]\<rparr>\<rparr>)"
    by (simp add: example_defs eval_defs apply_defs)
  have h6: "table_record
       (student ((solo alice)\<lparr>student := alice\<lparr>write_queue := [(''hw1'', CInt 3)]\<rparr>\<rparr>))
       ''is_dsp'' = Some (CBool False)"
    by (simp add: solo_def alice_def)
  note t = dsp_claim_warning[OF h1 h2 h3 h4 h3 h6, where mailer = working_mailer]
  have "case apply_policy course_env (request_form True [(hw1, 3)]) working_mailer False (solo alice) of
      Inl e \<Rightarrow> False
    | Inr p' \<Rightarrow>
        slack p' =
          [AddWarning (''Student alice@berkeley.edu responded '' @ [CHR 0x27] @ ''Yes''
             @ [CHR 0x27] @ '' to DSP question in extension request, but is not marked for DSP approval on the roster. Please investigate!''),
           SendStudentUpdate ''An extension request was automatically approved!'' True] \<and>
        table_record (student p') ''approval_status'' = Some (CStr ''Auto Approved'') \<and>
        cell_updates (records_sheet p') = [(2, 3, CInt 3)] \<and>
        length (emails p') = 1"
    unfolding conjunct1[OF conjunct2[OF t]]
    by (simp add: example_defs working_mailer_def eval_defs submission_defs apply_defs)
  with h1 h2 h4 h6 show ?thesis by simp
qed

text \<open>
  C7 as stated fails for the opposite mismatch: the submission does not claim DSP, the
  record is marked for DSP, the evaluation passes every check and approves, and Slack
  receives the approval alone, without a warning.
\<close>

theorem dsp_on_file_not_claimed_no_warning:
  "\<not> claims_dsp (request_form False [(hw1, 3)]) \<and>
   is_dsp (student (solo carol)) = Inr (CBool True) \<and>
   check_for_warnings (request_form False [(hw1, 3)]) (solo carol) = Inr (solo carol) \<and>
   (case apply_policy course_env (request_form False [(hw1, 3)]) working_mailer False (solo carol) of
      Inl e \<Rightarrow> False
    | Inr p' \<Rightarrow>
        slack p' = [SendStudentUpdate ''An extension request was automatically approved!'' True])"
  by (simp add: example_defs carol_def working_mailer_def eval_defs submission_defs apply_defs)

end
